theory Spec2Isabelle
  imports Complex_Main
begin

section \<open>Values, objects and the heap\<close>

text \<open>
  The program is \<^verbatim>\<open>src/q.js\<close>, a GJS module. Its functions work on JavaScript values
  and mutate function objects in place (\<^verbatim>\<open>isDecorator\<close>, \<^verbatim>\<open>wraps\<close>, \<^verbatim>\<open>wrapper\<close>,
  \<^verbatim>\<open>recursionDepth\<close>, ...), so the model has an explicit heap: a list of objects, an
  address being an index into it. An object is its own properties (a map from property
  names to values) and, when it is a function, the code it runs when called.

  A number is \<^verbatim>\<open>Num n\<close> (the integer \<open>n\<close>), \<^verbatim>\<open>Float x\<close> (any other finite number, and
  also an integer), \<^verbatim>\<open>Infinity\<close> with its sign (\<open>True\<close> for the positive one) or
  \<^verbatim>\<open>NaN\<close>. The module computes with counters and clock readings only; what the runtime
  computes on other numbers (their text, their sum in floating point) is a service of
  the host, below.

  What is not modelled: prototype chains (a property is an own property, except the
  \<^verbatim>\<open>length\<close> of a string), getters and setters, and side effects of a conversion
  (\<^verbatim>\<open>toString\<close>, \<^verbatim>\<open>valueOf\<close>, \<^verbatim>\<open>toJSON\<close>) that the caller defines; such a
  conversion can raise. Strings are lists of 8-bit characters.
\<close>

type_synonym addr = nat

datatype val =
    Undefined | Null | Bool bool | Num int | Float real | Infinity bool | NaN | Str string
  | Ref addr

text \<open>
  What a call can raise: a \<^verbatim>\<open>TypeError\<close> (of the runtime, or the one \<^verbatim>\<open>_decorate\<close>
  throws), a value thrown by the caller's own code, or the SIGTRAP of
  \<^verbatim>\<open>System.breakpoint()\<close> with no debugger attached.
\<close>

datatype error = TypeError string | Thrown val | Sigtrap

datatype 'a outcome = Ok 'a | Throw error

text \<open>
  The code of the caller's own functions: it can read a property, call a function value
  with a receiver and arguments, return and throw. A body receives \<^verbatim>\<open>this\<close> and the
  arguments.
\<close>

datatype prog =
    Return val
  | Raise val
  | GetProp val string "val \<Rightarrow> prog"
  | Call val val "val list" "val \<Rightarrow> prog"

text \<open>
  The three closures the decorators create capture \<^verbatim>\<open>func\<close> (and \<^verbatim>\<open>funcName\<close>).
\<close>

datatype closure =
    TraceShim val val
  | TimeShim val val
  | BreakBeforeShim val
  | UserCode "val \<Rightarrow> val list \<Rightarrow> prog"

record obj =
  props :: "string \<rightharpoonup> val"
  call_body :: "closure option"

text \<open>
  The module's state: the heap, the global object \<^verbatim>\<open>window\<close>, the module variables
  \<^verbatim>\<open>DEBUG\<close>, \<^verbatim>\<open>_breakpoints\<close> and \<^verbatim>\<open>_startTime\<close>, the text written to \<^verbatim>\<open>_stream\<close> so
  far, and how often the monotonic clock has been read.
\<close>

record state =
  heap :: "obj list"
  window :: addr
  DEBUG :: val
  breakpoints :: int
  startTime :: int
  stream :: string
  clock_reads :: nat

text \<open>
  The services of the runtime the module calls and this repository does not define: the
  monotonic clock (its \<open>k\<close>-th reading, in microseconds); \<^verbatim>\<open>JSON.stringify\<close>,
  \<^verbatim>\<open>String\<close> and \<^verbatim>\<open>Number\<close> of an object (each can raise); \<^verbatim>\<open>Number\<close> of a string;
  the text of a number that is not an integer of at most 2^53 in absolute value (for
  those the text is the decimal digits); the floating-point sum of two numbers; and
  whether a debugger is attached when \<^verbatim>\<open>System.breakpoint()\<close> traps.
\<close>

record host =
  get_monotonic_time :: "nat \<Rightarrow> int"
  json_object :: "obj list \<Rightarrow> addr \<Rightarrow> string option outcome"
  object_toString :: "obj list \<Rightarrow> addr \<Rightarrow> string outcome"
  object_toNumber :: "obj list \<Rightarrow> addr \<Rightarrow> val outcome"
  string_toNumber :: "string \<Rightarrow> val"
  number_toString :: "real \<Rightarrow> string"
  number_add :: "real \<Rightarrow> real \<Rightarrow> real"
  debugger_attached :: bool

subsection \<open>The runtime's operations on values\<close>

fun truthy :: "val \<Rightarrow> bool" where
  "truthy Undefined = False"
| "truthy Null = False"
| "truthy (Bool b) = b"
| "truthy (Num n) = (n \<noteq> 0)"
| "truthy (Float x) = (x \<noteq> 0)"
| "truthy (Infinity s) = True"
| "truthy NaN = False"
| "truthy (Str s) = (s \<noteq> [])"
| "truthy (Ref a) = True"

text \<open>
  \<^verbatim>\<open>v === w\<close>: two finite numbers of the same value, or else equal values, except that
  \<^verbatim>\<open>NaN\<close> equals nothing.
\<close>

fun number_value :: "val \<Rightarrow> real option" where
  "number_value (Num n) = Some (of_int n)"
| "number_value (Float x) = Some x"
| "number_value v = None"

definition strict_eq :: "val \<Rightarrow> val \<Rightarrow> bool" where
  "strict_eq v w =
     (case (number_value v, number_value w) of
        (Some x, Some y) \<Rightarrow> x = y
      | (None, None) \<Rightarrow> v = w \<and> v \<noteq> NaN
      | _ \<Rightarrow> False)"

text \<open>A value names an object of the heap, or is a primitive.\<close>

fun valid :: "state \<Rightarrow> val \<Rightarrow> bool" where
  "valid st (Ref a) = (a < length (heap st))"
| "valid st v = True"

text \<open>
  \<^verbatim>\<open>v.k\<close>: a \<^verbatim>\<open>TypeError\<close> on \<^verbatim>\<open>undefined\<close> and \<^verbatim>\<open>null\<close>, the own property of an
  object (\<^verbatim>\<open>undefined\<close> when it has none), the \<^verbatim>\<open>length\<close> of a string.
\<close>

fun getProp :: "state \<Rightarrow> val \<Rightarrow> string \<Rightarrow> val outcome" where
  "getProp st Undefined k = Throw (TypeError ''undefined has no properties'')"
| "getProp st Null k = Throw (TypeError ''null has no properties'')"
| "getProp st (Str s) k = Ok (if k = ''length'' then Num (int (length s)) else Undefined)"
| "getProp st (Ref a) k =
     (if a < length (heap st)
      then Ok (case props (heap st ! a) k of Some v \<Rightarrow> v | None \<Rightarrow> Undefined)
      else Ok Undefined)"
| "getProp st v k = Ok Undefined"

text \<open>
  \<^verbatim>\<open>v.k = x\<close> (the file is not in strict mode): a \<^verbatim>\<open>TypeError\<close> on \<^verbatim>\<open>undefined\<close> and
  \<^verbatim>\<open>null\<close>, an update in place of an object, nothing on another primitive.
\<close>

definition store :: "addr \<Rightarrow> string \<Rightarrow> val \<Rightarrow> state \<Rightarrow> state" where
  "store a k x st =
     st\<lparr>heap := (heap st)[a := (heap st ! a)\<lparr>props := (props (heap st ! a))(k \<mapsto> x)\<rparr>]\<rparr>"

fun setProp :: "val \<Rightarrow> string \<Rightarrow> val \<Rightarrow> state \<Rightarrow> unit outcome \<times> state" where
  "setProp Undefined k x st = (Throw (TypeError ''undefined has no properties''), st)"
| "setProp Null k x st = (Throw (TypeError ''null has no properties''), st)"
| "setProp (Ref a) k x st = (if a < length (heap st) then (Ok (), store a k x st) else (Ok (), st))"
| "setProp v k x st = (Ok (), st)"

text \<open>\<^verbatim>\<open>typeof v === 'function'\<close>, with the code of the function.\<close>

fun callable :: "state \<Rightarrow> val \<Rightarrow> (addr \<times> closure) option" where
  "callable st (Ref a) =
     (if a < length (heap st)
      then (case call_body (heap st ! a) of Some c \<Rightarrow> Some (a, c) | None \<Rightarrow> None)
      else None)"
| "callable st v = None"

text \<open>Decimal digits of a number.\<close>

fun show_nat :: "nat \<Rightarrow> string" where
  "show_nat n =
     (if n < 10 then [''0123456789'' ! n]
      else show_nat (n div 10) @ [''0123456789'' ! (n mod 10)])"

definition show_int :: "int \<Rightarrow> string" where
  "show_int i = (if i < 0 then ''-'' @ show_nat (nat (- i)) else show_nat (nat i))"

text \<open>
  The text of a number: the decimal digits of an integer of at most 2^53 in absolute
  value, and what the runtime prints for any other number (an exponent form from 10^21
  on, the shortest digits that read back as the same double).
\<close>

definition int_text :: "host \<Rightarrow> int \<Rightarrow> string" where
  "int_text h n =
     (if \<bar>n\<bar> \<le> 9007199254740992 then show_int n else number_toString h (of_int n))"

definition float_text :: "host \<Rightarrow> real \<Rightarrow> string" where
  "float_text h x =
     (if of_int \<lfloor>x\<rfloor> = x \<and> \<bar>x\<bar> \<le> 9007199254740992 then show_int \<lfloor>x\<rfloor>
      else number_toString h x)"

text \<open>
  \<^verbatim>\<open>String(v)\<close>, as string concatenation applies it. Of an object it is what the
  object's own conversion gives, which can raise.
\<close>

fun to_string :: "host \<Rightarrow> state \<Rightarrow> val \<Rightarrow> string outcome" where
  "to_string h st Undefined = Ok ''undefined''"
| "to_string h st Null = Ok ''null''"
| "to_string h st (Bool b) = Ok (if b then ''true'' else ''false'')"
| "to_string h st (Num n) = Ok (int_text h n)"
| "to_string h st (Float x) = Ok (float_text h x)"
| "to_string h st (Infinity s) = Ok (if s then ''Infinity'' else ''-Infinity'')"
| "to_string h st NaN = Ok ''NaN''"
| "to_string h st (Str s) = Ok s"
| "to_string h st (Ref a) = object_toString h (heap st) a"

text \<open>\<^verbatim>\<open>Number(v)\<close>, as \<^verbatim>\<open>++\<close> and \<^verbatim>\<open>--\<close> apply it.\<close>

fun to_number :: "host \<Rightarrow> state \<Rightarrow> val \<Rightarrow> val outcome" where
  "to_number h st Undefined = Ok NaN"
| "to_number h st Null = Ok (Num 0)"
| "to_number h st (Bool b) = Ok (Num (if b then 1 else 0))"
| "to_number h st (Str s) = Ok (string_toNumber h s)"
| "to_number h st (Ref a) = object_toNumber h (heap st) a"
| "to_number h st v = Ok v"

text \<open>
  \<^verbatim>\<open>v + d\<close> for a number \<^verbatim>\<open>v\<close> and an integer \<^verbatim>\<open>d\<close>: exact as long as both the number
  and the sum are integers of at most 2^53 in absolute value, the runtime's
  floating-point sum otherwise.
\<close>

fun add_number :: "host \<Rightarrow> val \<Rightarrow> int \<Rightarrow> val" where
  "add_number h (Num n) d =
     (if \<bar>n\<bar> \<le> 9007199254740992 \<and> \<bar>n + d\<bar> \<le> 9007199254740992 then Num (n + d)
      else Float (number_add h (of_int n) (of_int d)))"
| "add_number h (Float x) d = Float (number_add h x (of_int d))"
| "add_number h (Infinity s) d = Infinity s"
| "add_number h v d = NaN"

text \<open>\<^verbatim>\<open>v > n\<close> for a number \<^verbatim>\<open>v\<close>.\<close>

fun greater_than :: "val \<Rightarrow> int \<Rightarrow> bool" where
  "greater_than (Num n) m = (m < n)"
| "greater_than (Float x) m = (of_int m < x)"
| "greater_than (Infinity s) m = s"
| "greater_than v m = False"

text \<open>The results of a list of conversions: the first failure ends it.\<close>

fun all_ok :: "'a outcome list \<Rightarrow> 'a list outcome" where
  "all_ok [] = Ok []"
| "all_ok (r # rs) =
     (case r of
        Throw e \<Rightarrow> Throw e
      | Ok x \<Rightarrow> (case all_ok rs of Throw e \<Rightarrow> Throw e | Ok xs \<Rightarrow> Ok (x # xs)))"

text \<open>\<^verbatim>\<open>Array.prototype.join\<close>: the separator between the items.\<close>

fun join :: "string \<Rightarrow> string list \<Rightarrow> string" where
  "join sep [] = []"
| "join sep [x] = x"
| "join sep (x # y # ys) = x @ sep @ join sep (y # ys)"

text \<open>An item as \<^verbatim>\<open>join\<close> renders it: \<^verbatim>\<open>undefined\<close> and \<^verbatim>\<open>null\<close> are empty.\<close>

fun join_item :: "host \<Rightarrow> state \<Rightarrow> val \<Rightarrow> string outcome" where
  "join_item h st Undefined = Ok []"
| "join_item h st Null = Ok []"
| "join_item h st v = to_string h st v"

text \<open>\<^verbatim>\<open>s.split(c)\<close> for a separator of one character.\<close>

fun split :: "char \<Rightarrow> string \<Rightarrow> string list" where
  "split c [] = [[]]"
| "split c (x # xs) =
     (if x = c then [] # split c xs
      else (case split c xs of w # ws \<Rightarrow> (x # w) # ws | [] \<Rightarrow> [[x]]))"

text \<open>\<^verbatim>\<open>xs[i]\<close> of an array of strings: \<^verbatim>\<open>undefined\<close> out of range.\<close>

definition item :: "string list \<Rightarrow> nat \<Rightarrow> val" where
  "item xs i = (if i < length xs then Str (xs ! i) else Undefined)"

subsection \<open>\<^verbatim>\<open>JSON.stringify\<close>\<close>

definition hex_digit :: "nat \<Rightarrow> char" where
  "hex_digit n = ''0123456789abcdef'' ! (n mod 16)"

text \<open>A character inside a JSON string.\<close>

definition json_char :: "char \<Rightarrow> string" where
  "json_char c =
     (if c = CHR 0x22 then [CHR 0x5C, CHR 0x22]
      else if c = CHR 0x5C then [CHR 0x5C, CHR 0x5C]
      else if c = CHR 0x08 then [CHR 0x5C, CHR ''b'']
      else if c = CHR 0x0C then [CHR 0x5C, CHR ''f'']
      else if c = CHR 0x0A then [CHR 0x5C, CHR ''n'']
      else if c = CHR 0x0D then [CHR 0x5C, CHR ''r'']
      else if c = CHR 0x09 then [CHR 0x5C, CHR ''t'']
      else if (of_char c :: nat) < 32
        then [CHR 0x5C, CHR ''u'', CHR ''0'', CHR ''0'',
              hex_digit (of_char c div 16), hex_digit (of_char c)]
      else [c])"

definition json_quote :: "string \<Rightarrow> string" where
  "json_quote s = [CHR 0x22] @ concat (map json_char s) @ [CHR 0x22]"

text \<open>
  \<^verbatim>\<open>JSON.stringify(v)\<close>: \<^verbatim>\<open>undefined\<close> (here \<open>None\<close>) for \<^verbatim>\<open>undefined\<close> and for a
  function, \<^verbatim>\<open>null\<close> for a number that is not finite, text for the other primitives,
  and the runtime's serialisation of an object (which raises on a cyclic one).
\<close>

fun JSON_stringify :: "host \<Rightarrow> state \<Rightarrow> val \<Rightarrow> string option outcome" where
  "JSON_stringify h st Undefined = Ok None"
| "JSON_stringify h st Null = Ok (Some ''null'')"
| "JSON_stringify h st (Bool b) = Ok (Some (if b then ''true'' else ''false''))"
| "JSON_stringify h st (Num n) = Ok (Some (int_text h n))"
| "JSON_stringify h st (Float x) = Ok (Some (float_text h x))"
| "JSON_stringify h st (Infinity s) = Ok (Some ''null'')"
| "JSON_stringify h st NaN = Ok (Some ''null'')"
| "JSON_stringify h st (Str s) = Ok (Some (json_quote s))"
| "JSON_stringify h st (Ref a) =
     (if callable st (Ref a) \<noteq> None then Ok None else json_object h (heap st) a)"

section \<open>The module\<close>

subsection \<open>The log: \<^verbatim>\<open>write\<close>\<close>

text \<open>
  \<^verbatim>\<open>'%4.1fs '.format(x)\<close> is \<^verbatim>\<open>imports.format\<close> of GJS: \<^verbatim>\<open>%4.1f\<close> renders its argument
  with \<^verbatim>\<open>toFixed(1)\<close> and passes the text to \<^verbatim>\<open>fillWidth(s, ' ', 4)\<close>, which returns
  \<^verbatim>\<open>fill.substr(s.length) + s\<close> for a \<^verbatim>\<open>fill\<close> of four spaces.

  The argument is \<^verbatim>\<open>((now - _startTime) / 1e6) % 100\<close>, computed in double precision.
  The model follows that computation exactly, in integers. For a count \<open>d\<close> of
  microseconds below 2^53, \<open>seconds_double d\<close> is the double nearest to \<open>d / 10^6\<close>
  (a tie to the even mantissa), as the pair \<open>(m, s)\<close> that stands for \<open>m / 2^s\<close> with a
  mantissa \<open>m\<close> of 53 bits: \<open>binary_scale\<close> finds the \<open>s\<close> for which
  \<open>2^52 \<le> d * 2^s / 10^6\<close> first holds. The remainder \<^verbatim>\<open>% 100\<close> of a double is exact and
  has the sign of the dividend. \<^verbatim>\<open>toFixed(1)\<close> takes the number of tenths nearest to the
  double, the larger one at a tie, and writes a \<^verbatim>\<open>-\<close> before a number below zero.
\<close>

fun binary_scale :: "nat \<Rightarrow> nat \<Rightarrow> nat \<Rightarrow> nat" where
  "binary_scale d s 0 = s"
| "binary_scale d s (Suc fuel) =
     (if 2 ^ 52 * 1000000 \<le> d * 2 ^ s then s else binary_scale d (Suc s) fuel)"

definition seconds_double :: "nat \<Rightarrow> nat \<times> nat" where
  "seconds_double d =
     (let s = binary_scale d 0 72;
          q = d * 2 ^ s div 1000000;
          r = d * 2 ^ s mod 1000000;
          m = (if 1000000 < 2 * r \<or> (2 * r = 1000000 \<and> odd q) then Suc q else q)
      in (m, s))"

definition toFixed1_mod_100 :: "int \<Rightarrow> string" where
  "toFixed1_mod_100 d =
     (case seconds_double (nat \<bar>d\<bar>) of
        (m, s) \<Rightarrow>
          (let r = m mod (100 * 2 ^ s);
               n = (20 * r + 2 ^ s) div 2 ^ Suc s
           in (if d < 0 \<and> r \<noteq> 0 then ''-'' else []) @
              show_nat (n div 10) @ ''.'' @ show_nat (n mod 10)))"

definition fillWidth :: "string \<Rightarrow> char \<Rightarrow> nat \<Rightarrow> string" where
  "fillWidth s c w = drop (length s) (replicate w c) @ s"

text \<open>
  \<^verbatim>\<open>function write()\<close>: the arguments joined by a space (which raises when an argument
  has no text, before anything else is done), behind the elapsed time, one line appended
  to the stream.
\<close>

definition write_log :: "host \<Rightarrow> val list \<Rightarrow> state \<Rightarrow> state outcome" where
  "write_log h arguments st =
     (case all_ok (map (join_item h st) arguments) of
        Throw e \<Rightarrow> Throw e
      | Ok items \<Rightarrow>
          (let string = join '' '' items;
               now = get_monotonic_time h (clock_reads st);
               prefix = fillWidth (toFixed1_mod_100 (now - startTime st)) CHR '' '' 4 @ ''s '';
               output = prefix @ string @ [CHR 0x0A]
           in Ok (st\<lparr>stream := stream st @ output, clock_reads := Suc (clock_reads st)\<rparr>)))"

subsection \<open>The caller's location\<close>

text \<open>
  \<^verbatim>\<open>_getCurrentStack\<close>, from the text of \<^verbatim>\<open>new Error().stack\<close>: the lines, without the
  last (empty) one and without the first (the function's own frame).
\<close>

definition getCurrentStack :: "string \<Rightarrow> string list" where
  "getCurrentStack e_stack = tl (butlast (split (CHR 0x0A) e_stack))"

text \<open>
  \<^verbatim>\<open>_interpretStackFrame\<close>: a frame \<^verbatim>\<open>location@file:line\<close> as its three parts. Splitting
  what is not a string raises.
\<close>

definition interpretStackFrame :: "val \<Rightarrow> (val \<times> val \<times> val) outcome" where
  "interpretStackFrame frame =
     (case frame of
        Str f \<Rightarrow>
          (let parts = split CHR ''@'' f; location = item parts 0; fileLine = item parts 1
           in (case fileLine of
                 Str fl \<Rightarrow>
                   (let fparts = split CHR '':'' fl; file = item fparts 0; line = item fparts 1
                    in Ok (if location = Str [] then Str ''anonymous function'' else location,
                           file, line))
               | _ \<Rightarrow> Throw (TypeError ''fileLine is undefined'')))
      | _ \<Rightarrow> Throw (TypeError ''frame is undefined''))"

subsection \<open>The decorator chain\<close>

text \<open>
  A function expression evaluates to a new function object: anonymous, of no formal
  parameters.
\<close>

definition new_function :: "closure \<Rightarrow> state \<Rightarrow> addr \<times> state" where
  "new_function c st =
     (length (heap st),
      st\<lparr>heap := heap st @
        [\<lparr>props = [''name'' \<mapsto> Str [], ''length'' \<mapsto> Num 0], call_body = Some c\<rparr>]\<rparr>)"

text \<open>\<^verbatim>\<open>Lang.copyProperties(source, dest)\<close>, the source an object literal.\<close>

fun copyProperties :: "(string \<times> val) list \<Rightarrow> val \<Rightarrow> state \<Rightarrow> unit outcome \<times> state" where
  "copyProperties [] dest st = (Ok (), st)"
| "copyProperties ((k, v) # kvs) dest st =
     (case setProp dest k v st of
        (Throw e, st') \<Rightarrow> (Throw e, st')
      | (Ok u, st') \<Rightarrow> copyProperties kvs dest st')"

text \<open>One statement after the other, an exception ending the sequence.\<close>

definition and_then ::
  "(state \<Rightarrow> 'a outcome \<times> state) \<Rightarrow> ('a \<Rightarrow> state \<Rightarrow> 'b outcome \<times> state) \<Rightarrow>
   state \<Rightarrow> 'b outcome \<times> state" where
  "and_then m f st = (case m st of (Throw e, st') \<Rightarrow> (Throw e, st') | (Ok x, st') \<Rightarrow> f x st')"

definition readProp :: "val \<Rightarrow> string \<Rightarrow> state \<Rightarrow> val outcome \<times> state" where
  "readProp v k st = (getProp st v k, st)"

text \<open>\<^verbatim>\<open>_makeDecorator(innerFunc, decoratorFunc, otherProperties)\<close>.\<close>

definition makeDecorator ::
  "val \<Rightarrow> val \<Rightarrow> (string \<times> val) list \<Rightarrow> state \<Rightarrow> val outcome \<times> state" where
  "makeDecorator innerFunc decoratorFunc otherProperties =
     and_then (setProp decoratorFunc ''isDecorator'' (Bool True)) (\<lambda>u.
     and_then (readProp innerFunc ''isDecorator'') (\<lambda>d.
     and_then
       (if truthy d
        then and_then (setProp innerFunc ''wrapper'' decoratorFunc) (\<lambda>u.
             and_then (readProp innerFunc ''decoratedFunc'') (\<lambda>df.
             setProp decoratorFunc ''decoratedFunc'' df))
        else setProp decoratorFunc ''decoratedFunc'' innerFunc) (\<lambda>u.
     and_then (setProp decoratorFunc ''wraps'' innerFunc) (\<lambda>u.
     and_then (copyProperties otherProperties decoratorFunc) (\<lambda>u st'.
     (Ok decoratorFunc, st'))))))"

text \<open>
  \<^verbatim>\<open>_isDecoratedWithTag(func, tag)\<close>. The loop follows \<^verbatim>\<open>wraps\<close> for as long as
  \<^verbatim>\<open>isDecorator\<close> is truthy, which on a cyclic chain is for ever: the result \<open>None\<close>.
  Its last argument is not in the source: it lists the records the loop has examined, in
  order, so that a bound on the visits can be stated.
\<close>

partial_function (option) isDecoratedWithTag_loop ::
  "state \<Rightarrow> val \<Rightarrow> val \<Rightarrow> val list \<Rightarrow> (bool \<times> val list) outcome option" where
  "isDecoratedWithTag_loop st func tag visited =
     (case getProp st func ''isDecorator'' of
        Throw e \<Rightarrow> Some (Throw e)
      | Ok d \<Rightarrow>
          if truthy d
          then (case getProp st func ''tag'' of
                  Throw e \<Rightarrow> Some (Throw e)
                | Ok t \<Rightarrow>
                    if strict_eq t tag then Some (Ok (True, visited @ [func]))
                    else (case getProp st func ''wraps'' of
                            Throw e \<Rightarrow> Some (Throw e)
                          | Ok w \<Rightarrow> isDecoratedWithTag_loop st w tag (visited @ [func])))
          else Some (Ok (False, visited)))"

definition isDecoratedWithTag :: "state \<Rightarrow> val \<Rightarrow> val \<Rightarrow> bool outcome option" where
  "isDecoratedWithTag st func tag =
     (case isDecoratedWithTag_loop st func tag [] of
        None \<Rightarrow> None
      | Some (Throw e) \<Rightarrow> Some (Throw e)
      | Some (Ok (b, visited)) \<Rightarrow> Some (Ok b))"

subsection \<open>\<^verbatim>\<open>_prettyPrint\<close>\<close>

definition prettyPrint :: "host \<Rightarrow> state \<Rightarrow> val \<Rightarrow> string outcome" where
  "prettyPrint h st obj =
     (case JSON_stringify h st obj of
        Throw e \<Rightarrow> Throw e
      | Ok None \<Rightarrow> Throw (TypeError ''retval is undefined'')
      | Ok (Some r) \<Rightarrow>
          (let retval = (if length r > 15 then take 12 r @ ''...'' else r)
           in (case getProp st obj ''length'' of
                 Throw e \<Rightarrow> Throw e
               | Ok len \<Rightarrow>
                   if len \<noteq> Undefined
                   then (case to_string h st len of
                           Throw e \<Rightarrow> Throw e
                         | Ok n \<Rightarrow> Ok (retval @ '' (length '' @ n @ '')''))
                   else Ok retval)))"

text \<open>\<^verbatim>\<open>Array.map(arguments, _prettyPrint)\<close>: the first failure ends it.\<close>

fun prettyPrint_all :: "host \<Rightarrow> state \<Rightarrow> val list \<Rightarrow> string list outcome" where
  "prettyPrint_all h st [] = Ok []"
| "prettyPrint_all h st (v # vs) =
     (case prettyPrint h st v of
        Throw e \<Rightarrow> Throw e
      | Ok s \<Rightarrow> (case prettyPrint_all h st vs of Throw e \<Rightarrow> Throw e | Ok ss \<Rightarrow> Ok (s # ss)))"

subsection \<open>The three decorators\<close>

text \<open>
  \<^verbatim>\<open>if (funcName === undefined) funcName = func.name || 'anonymous function';\<close>
\<close>

definition default_funcName :: "state \<Rightarrow> val \<Rightarrow> val \<Rightarrow> val outcome" where
  "default_funcName st func funcName =
     (if funcName = Undefined
      then (case getProp st func ''name'' of
              Throw e \<Rightarrow> Throw e
            | Ok n \<Rightarrow> Ok (if truthy n then n else Str ''anonymous function''))
      else Ok funcName)"

definition traceDecorator :: "val \<Rightarrow> val \<Rightarrow> state \<Rightarrow> (val outcome \<times> state) option" where
  "traceDecorator func funcName st =
     (if \<not> truthy (DEBUG st) then Some (Ok func, st)
      else (case isDecoratedWithTag st func (Str ''trace'') of
              None \<Rightarrow> None
            | Some (Throw e) \<Rightarrow> Some (Throw e, st)
            | Some (Ok True) \<Rightarrow> Some (Ok func, st)
            | Some (Ok False) \<Rightarrow>
                (case default_funcName st func funcName of
                   Throw e \<Rightarrow> Some (Throw e, st)
                 | Ok name \<Rightarrow>
                     (case new_function (TraceShim func name) st of
                        (shim, st1) \<Rightarrow>
                          Some (makeDecorator func (Ref shim)
                                  [(''recursionDepth'', Num 0), (''tag'', Str ''trace'')] st1)))))"

definition timeDecorator :: "val \<Rightarrow> val \<Rightarrow> state \<Rightarrow> (val outcome \<times> state) option" where
  "timeDecorator func funcName st =
     (if \<not> truthy (DEBUG st) then Some (Ok func, st)
      else (case isDecoratedWithTag st func (Str ''time'') of
              None \<Rightarrow> None
            | Some (Throw e) \<Rightarrow> Some (Throw e, st)
            | Some (Ok True) \<Rightarrow> Some (Ok func, st)
            | Some (Ok False) \<Rightarrow>
                (case default_funcName st func funcName of
                   Throw e \<Rightarrow> Some (Throw e, st)
                 | Ok name \<Rightarrow>
                     (case new_function (TimeShim func name) st of
                        (shim, st1) \<Rightarrow>
                          Some (makeDecorator func (Ref shim) [(''tag'', Str ''time'')] st1)))))"

definition breakBeforeDecorator :: "val \<Rightarrow> state \<Rightarrow> (val outcome \<times> state) option" where
  "breakBeforeDecorator func st =
     (if \<not> truthy (DEBUG st) then Some (Ok func, st)
      else (case isDecoratedWithTag st func (Str ''breakBefore'') of
              None \<Rightarrow> None
            | Some (Throw e) \<Rightarrow> Some (Throw e, st)
            | Some (Ok True) \<Rightarrow> Some (Ok func, st)
            | Some (Ok False) \<Rightarrow>
                (case new_function (BreakBeforeShim func) st of
                   (shim, st1) \<Rightarrow>
                     (let st2 = st1\<lparr>breakpoints := breakpoints st1 + 1\<rparr>
                      in Some (makeDecorator func (Ref shim)
                                 [(''breakpointNum'', Num (breakpoints st2)),
                                  (''tag'', Str ''breakBefore'')] st2)))))"

subsection \<open>The bodies of the three closures\<close>

text \<open>\<^verbatim>\<open>++v.k\<close> and \<^verbatim>\<open>v.k--\<close>: the number in the property plus \<open>d\<close>, stored.\<close>

definition add_to_property ::
  "host \<Rightarrow> val \<Rightarrow> string \<Rightarrow> int \<Rightarrow> state \<Rightarrow> val outcome \<times> state" where
  "add_to_property h v k d st =
     (case getProp st v k of
        Throw e \<Rightarrow> (Throw e, st)
      | Ok old \<Rightarrow>
          (case to_number h st old of
             Throw e \<Rightarrow> (Throw e, st)
           | Ok number \<Rightarrow>
               (case setProp v k (add_number h number d) st of
                  (Throw e, st') \<Rightarrow> (Throw e, st')
                | (Ok u, st') \<Rightarrow> (Ok (add_number h number d), st'))))"

text \<open>
  The closure of \<^verbatim>\<open>_traceDecorator\<close>, up to \<^verbatim>\<open>write('Entering', traceString)\<close>: its
  result is \<^verbatim>\<open>traceString\<close>. \<^verbatim>\<open>arguments.callee\<close> is the closure's own object.
\<close>

definition trace_enter ::
  "host \<Rightarrow> addr \<Rightarrow> val \<Rightarrow> val list \<Rightarrow> state \<Rightarrow> string outcome \<times> state" where
  "trace_enter h callee funcName args st =
     (case add_to_property h (Ref callee) ''recursionDepth'' 1 st of
        (Throw e, st1) \<Rightarrow> (Throw e, st1)
      | (Ok depth, st1) \<Rightarrow>
          (case to_string h st1 funcName of
             Throw e \<Rightarrow> (Throw e, st1)
           | Ok name \<Rightarrow>
               (case prettyPrint_all h st1 args of
                  Throw e \<Rightarrow> (Throw e, st1)
                | Ok shown \<Rightarrow>
                    (case (if greater_than depth 1
                           then (case to_string h st1 depth of
                                   Throw e \<Rightarrow> Throw e
                                 | Ok d \<Rightarrow> Ok ('' ['' @ d @ '']''))
                           else Ok []) of
                       Throw e \<Rightarrow> (Throw e, st1)
                     | Ok suffix \<Rightarrow>
                         (let traceString = name @ ''('' @ join '', '' shown @ '')'' @ suffix
                          in (case write_log h [Str ''Entering'', Str traceString] st1 of
                                Throw e \<Rightarrow> (Throw e, st1)
                              | Ok st2 \<Rightarrow> (Ok traceString, st2)))))))"

text \<open>The same closure after \<^verbatim>\<open>func.apply(this, arguments)\<close> has returned.\<close>

definition trace_leave ::
  "host \<Rightarrow> addr \<Rightarrow> string \<Rightarrow> val \<Rightarrow> state \<Rightarrow> val outcome \<times> state" where
  "trace_leave h callee traceString retval st =
     (case prettyPrint h st retval of
        Throw e \<Rightarrow> (Throw e, st)
      | Ok shown \<Rightarrow>
          (case write_log h [Str ''Leaving'', Str traceString, Str ''->'', Str shown] st of
             Throw e \<Rightarrow> (Throw e, st)
           | Ok st1 \<Rightarrow>
               (case add_to_property h (Ref callee) ''recursionDepth'' (- 1) st1 of
                  (Throw e, st2) \<Rightarrow> (Throw e, st2)
                | (Ok v, st2) \<Rightarrow> (Ok retval, st2))))"

text \<open>
  The closure of \<^verbatim>\<open>_timeDecorator\<close> after \<^verbatim>\<open>func.apply(this, arguments)\<close> has
  returned; \<open>timer\<close> is the clock's reading from before the call.
\<close>

definition time_leave ::
  "host \<Rightarrow> val \<Rightarrow> int \<Rightarrow> val \<Rightarrow> state \<Rightarrow> val outcome \<times> state" where
  "time_leave h funcName timer retval st =
     (let time = get_monotonic_time h (clock_reads st) - timer;
          st1 = st\<lparr>clock_reads := Suc (clock_reads st)\<rparr>
      in (case write_log h [funcName, Str ''executed in'', Num time, Str ''microseconds''] st1 of
            Throw e \<Rightarrow> (Throw e, st1)
          | Ok st2 \<Rightarrow> (Ok retval, st2)))"

text \<open>
  The closure of \<^verbatim>\<open>_breakBeforeDecorator\<close>, up to \<^verbatim>\<open>System.breakpoint()\<close>, which ends
  the program when no debugger is attached.
\<close>

definition break_enter :: "host \<Rightarrow> addr \<Rightarrow> state \<Rightarrow> unit outcome \<times> state" where
  "break_enter h callee st =
     (case getProp st (Ref callee) ''breakpointNum'' of
        Throw e \<Rightarrow> (Throw e, st)
      | Ok num \<Rightarrow>
          (case write_log h [Str ''Breakpoint'', num, Str ''reached''] st of
             Throw e \<Rightarrow> (Throw e, st)
           | Ok st1 \<Rightarrow> if debugger_attached h then (Ok (), st1) else (Throw Sigtrap, st1)))"

subsection \<open>Calling a function\<close>

text \<open>
  \<open>call h n f this args\<close> is \<^verbatim>\<open>f.apply(this, args)\<close>, and \<open>run\<close> the body of one of the
  caller's functions. The caller's code may not return, so both count their steps down
  from \<open>n\<close>; \<open>None\<close> is no result within \<open>n\<close> steps. A result comes with the state that
  the call has left behind, also when the call raised.

  A closure of a decorator runs its body around the call of the function it wraps.
\<close>

fun call :: "host \<Rightarrow> nat \<Rightarrow> val \<Rightarrow> val \<Rightarrow> val list \<Rightarrow> state \<Rightarrow> (val outcome \<times> state) option"
and run :: "host \<Rightarrow> nat \<Rightarrow> prog \<Rightarrow> state \<Rightarrow> (val outcome \<times> state) option" where
  "call h 0 f this args st = None"
| "call h (Suc n) f this args st =
     (case callable st f of
        None \<Rightarrow> Some (Throw (TypeError ''func.apply is not a function''), st)
      | Some (callee, UserCode body) \<Rightarrow> run h n (body this args) st
      | Some (callee, TraceShim func funcName) \<Rightarrow>
          (case trace_enter h callee funcName args st of
             (Throw e, st1) \<Rightarrow> Some (Throw e, st1)
           | (Ok traceString, st2) \<Rightarrow>
               (case call h n func this args st2 of
                  None \<Rightarrow> None
                | Some (Throw e, st3) \<Rightarrow> Some (Throw e, st3)
                | Some (Ok retval, st3) \<Rightarrow> Some (trace_leave h callee traceString retval st3)))
      | Some (callee, TimeShim func funcName) \<Rightarrow>
          (let timer = get_monotonic_time h (clock_reads st);
               st1 = st\<lparr>clock_reads := Suc (clock_reads st)\<rparr>
           in (case call h n func this args st1 of
                 None \<Rightarrow> None
               | Some (Throw e, st2) \<Rightarrow> Some (Throw e, st2)
               | Some (Ok retval, st2) \<Rightarrow> Some (time_leave h funcName timer retval st2)))
      | Some (callee, BreakBeforeShim func) \<Rightarrow>
          (case break_enter h callee st of
             (Throw e, st1) \<Rightarrow> Some (Throw e, st1)
           | (Ok u, st1) \<Rightarrow> call h n func this args st1))"
| "run h 0 p st = None"
| "run h (Suc n) (Return v) st = Some (Ok v, st)"
| "run h (Suc n) (Raise v) st = Some (Throw (Thrown v), st)"
| "run h (Suc n) (GetProp ob k cont) st =
     (case getProp st ob k of
        Throw e \<Rightarrow> Some (Throw e, st)
      | Ok v \<Rightarrow> run h n (cont v) st)"
| "run h (Suc n) (Call f this args cont) st =
     (case call h n f this args st of
        None \<Rightarrow> None
      | Some (Throw e, st') \<Rightarrow> Some (Throw e, st')
      | Some (Ok v, st') \<Rightarrow> run h n (cont v) st')"

subsection \<open>The public operations\<close>

text \<open>
  \<^verbatim>\<open>_decorate(name, decorator, args)\<close>. A property name is the string of the value
  that names it.
\<close>

definition decorate ::
  "host \<Rightarrow> string \<Rightarrow> (val \<Rightarrow> val \<Rightarrow> state \<Rightarrow> (val outcome \<times> state) option) \<Rightarrow> val list \<Rightarrow>
   state \<Rightarrow> (val outcome \<times> state) option" where
  "decorate h name decorator args st =
     (if length args < 1 \<or> length args > 2
      then Some (Throw (TypeError (name @ ''() takes one or two arguments'')), st)
      else if length args = 1 \<and> callable st (args ! 0) \<noteq> None
      then decorator (args ! 0) Undefined st
      else
        (let scope = (if length args = 1 then Ref (window st) else args ! 0);
             ident = (if length args = 1 then args ! 0 else args ! 1)
         in (case to_string h st ident of
               Throw e \<Rightarrow> Some (Throw e, st)
             | Ok key \<Rightarrow>
                 (case getProp st scope key of
                    Throw e \<Rightarrow> Some (Throw e, st)
                  | Ok old \<Rightarrow>
                      (case decorator old ident st of
                         None \<Rightarrow> None
                       | Some (Throw e, st1) \<Rightarrow> Some (Throw e, st1)
                       | Some (Ok new, st1) \<Rightarrow>
                           (case setProp scope key new st1 of
                              (Throw e, st2) \<Rightarrow> Some (Throw e, st2)
                            | (Ok u, st2) \<Rightarrow>
                                (case getProp st2 scope key of
                                   Throw e \<Rightarrow> Some (Throw e, st2)
                                 | Ok r \<Rightarrow> Some (Ok r, st2))))))))"

definition trace :: "host \<Rightarrow> val list \<Rightarrow> state \<Rightarrow> (val outcome \<times> state) option" where
  "trace h arguments = decorate h ''trace'' traceDecorator arguments"

definition time :: "host \<Rightarrow> val list \<Rightarrow> state \<Rightarrow> (val outcome \<times> state) option" where
  "time h arguments = decorate h ''time'' timeDecorator arguments"

definition breakBefore :: "host \<Rightarrow> val list \<Rightarrow> state \<Rightarrow> (val outcome \<times> state) option" where
  "breakBefore h arguments =
     decorate h ''breakBefore'' (\<lambda>func ident. breakBeforeDecorator func) arguments"

text \<open>
  \<^verbatim>\<open>q(value)\<close>, called where \<^verbatim>\<open>new Error().stack\<close> inside \<^verbatim>\<open>_getCurrentStack\<close> reads
  \<open>e_stack\<close>.
\<close>

definition q :: "host \<Rightarrow> string \<Rightarrow> val \<Rightarrow> state \<Rightarrow> val outcome \<times> state" where
  "q h e_stack v st =
     (if \<not> truthy (DEBUG st) then (Ok v, st)
      else (case interpretStackFrame (item (getCurrentStack e_stack) 1) of
              Throw e \<Rightarrow> (Throw e, st)
            | Ok (func, file, line) \<Rightarrow>
                (case all_ok [to_string h st file, to_string h st line] of
                   Throw e \<Rightarrow> (Throw e, st)
                 | Ok place \<Rightarrow>
                     (case prettyPrint h st v of
                        Throw e \<Rightarrow> (Throw e, st)
                      | Ok shown \<Rightarrow>
                          (case write_log h [Str (join '':'' place @ '': '' @ shown)] st of
                             Throw e \<Rightarrow> (Throw e, st)
                           | Ok st' \<Rightarrow> (Ok v, st'))))))"

section \<open>Chains, and the states the module reaches\<close>

text \<open>
  The chain of a value: the records met from it along \<^verbatim>\<open>wraps\<close>, outermost first, down
  to a value that is not a decorator record. A value has a chain only when the walk ends.
\<close>

inductive chain :: "state \<Rightarrow> val \<Rightarrow> addr list \<Rightarrow> bool" for st :: state where
  chain_end:
    "valid st v \<Longrightarrow> getProp st v ''isDecorator'' = Ok d \<Longrightarrow> \<not> truthy d \<Longrightarrow> chain st v []"
| chain_link:
    "a < length (heap st) \<Longrightarrow> getProp st (Ref a) ''isDecorator'' = Ok d \<Longrightarrow> truthy d \<Longrightarrow>
     getProp st (Ref a) ''wraps'' = Ok w \<Longrightarrow> chain st w as \<Longrightarrow> chain st (Ref a) (a # as)"

definition is_decorator :: "state \<Rightarrow> addr \<Rightarrow> bool" where
  "is_decorator st a =
     (a < length (heap st) \<and>
      truthy (case props (heap st ! a) ''isDecorator'' of Some d \<Rightarrow> d | None \<Rightarrow> Undefined))"

definition tag_at :: "state \<Rightarrow> addr \<Rightarrow> val" where
  "tag_at st a = (case props (heap st ! a) ''tag'' of Some t \<Rightarrow> t | None \<Rightarrow> Undefined)"

text \<open>The records of a chain whose tag is \<^verbatim>\<open>===\<close> a given one.\<close>

definition records_tagged :: "state \<Rightarrow> val \<Rightarrow> addr list \<Rightarrow> addr list" where
  "records_tagged st t as = filter (\<lambda>a. strict_eq (tag_at st a) t) as"

text \<open>
  The records \<^verbatim>\<open>_isDecoratedWithTag\<close> examines on a chain: up to and with the first one
  that carries the tag.
\<close>

fun examined :: "state \<Rightarrow> val \<Rightarrow> addr list \<Rightarrow> addr list" where
  "examined st t [] = []"
| "examined st t (a # as) = (if strict_eq (tag_at st a) t then [a] else a # examined st t as)"

text \<open>The three instrumentation kinds, their tags and their decorators.\<close>

datatype kind = Trace | Time | BreakBefore


fun wrap :: "kind \<Rightarrow> val \<Rightarrow> val \<Rightarrow> state \<Rightarrow> (val outcome \<times> state) option" where
  "wrap Trace func funcName st = traceDecorator func funcName st"
| "wrap Time func funcName st = timeDecorator func funcName st"
| "wrap BreakBefore func funcName st = breakBeforeDecorator func st"



text \<open>
  Two states that agree on the length of the heap and on every property but the
  \<^verbatim>\<open>recursionDepth\<close> counters, and a state that extends another: it keeps the objects,
  and their properties but \<^verbatim>\<open>wrapper\<close> and \<^verbatim>\<open>recursionDepth\<close>.
\<close>

definition same_but_depth :: "state \<Rightarrow> state \<Rightarrow> bool" where
  "same_but_depth st st' =
     (length (heap st') = length (heap st) \<and>
      (\<forall>a k. a < length (heap st) \<and> k \<noteq> ''recursionDepth'' \<longrightarrow>
         props (heap st' ! a) k = props (heap st ! a) k))"

definition extends :: "state \<Rightarrow> state \<Rightarrow> bool" where
  "extends st st' =
     (length (heap st) \<le> length (heap st') \<and>
      (\<forall>a k. a < length (heap st) \<and> k \<noteq> ''wrapper'' \<and> k \<noteq> ''recursionDepth'' \<longrightarrow>
         props (heap st' ! a) k = props (heap st ! a) k))"



section \<open>Notions used in the proofs\<close>




text \<open>Assigning to \<^verbatim>\<open>DEBUG\<close>, in a state and in the result of a call.\<close>

definition set_DEBUG :: "val \<Rightarrow> state \<Rightarrow> state" where
  "set_DEBUG d st = st\<lparr>DEBUG := d\<rparr>"

definition with_DEBUG :: "val \<Rightarrow> (val outcome \<times> state) option \<Rightarrow> (val outcome \<times> state) option" where
  "with_DEBUG d res = (case res of None \<Rightarrow> None | Some (r, st) \<Rightarrow> Some (r, set_DEBUG d st))"

section \<open>The log line in the words of the specification\<close>



section \<open>Example states\<close>

definition plain_function :: "string \<Rightarrow> (val \<Rightarrow> val list \<Rightarrow> prog) \<Rightarrow> obj" where
  "plain_function name body =
     \<lparr>props = [''name'' \<mapsto> Str name, ''length'' \<mapsto> Num 0], call_body = Some (UserCode body)\<rparr>"

definition example_host :: host where
  "example_host =
     \<lparr>get_monotonic_time = (\<lambda>k. 1500000 + 100 * int k),
      json_object = (\<lambda>hp a. Ok (Some ''{}'')),
      object_toString = (\<lambda>hp a. Ok ''[object Object]''),
      object_toNumber = (\<lambda>hp a. Ok NaN),
      string_toNumber = (\<lambda>s. NaN),
      number_toString = (\<lambda>x. ''1e+21''),
      number_add = (\<lambda>x y. x + y),
      debugger_attached = True\<rparr>"

text \<open>
  The global object, a function that returns 7, one that throws, and one that returns
  nothing.
\<close>

definition example_state :: state where
  "example_state =
     \<lparr>heap = [\<lparr>props = Map.empty, call_body = None\<rparr>,
              plain_function ''seven'' (\<lambda>this args. Return (Num 7)),
              plain_function ''boom'' (\<lambda>this args. Raise (Str ''boom'')),
              plain_function ''nothing'' (\<lambda>this args. Return Undefined)],
      window = 0, DEBUG = Bool True, breakpoints = 0, startTime = 0, stream = [],
      clock_reads = 0\<rparr>"

text \<open>
  A closure \<open>c\<close> that a decorator has installed around \<open>f\<close>, the function at address 1
  being the one decorated first; \<open>other\<close> lists the properties set after \<^verbatim>\<open>wraps\<close>.
\<close>

definition shim :: "closure \<Rightarrow> val \<Rightarrow> (string \<times> val) list \<Rightarrow> obj" where
  "shim c f other =
     \<lparr>props = fold (\<lambda>(k, v) m. m(k \<mapsto> v)) other
        [''name'' \<mapsto> Str [], ''length'' \<mapsto> Num 0, ''isDecorator'' \<mapsto> Bool True,
         ''decoratedFunc'' \<mapsto> Ref 1, ''wraps'' \<mapsto> f],
      call_body = Some c\<rparr>"


text \<open>The state a decorator leaves behind.\<close>

fun state_after :: "(val outcome \<times> state) option \<Rightarrow> state \<Rightarrow> state" where
  "state_after (Some (r, st')) st = st'"
| "state_after None st = st"

text \<open>
  \<^verbatim>\<open>let t = Q.trace(seven); let a = Q.time(t); let b = Q.breakBefore(t);\<close>
\<close>

definition traced :: state where
  "traced = state_after (wrap Trace (Ref 1) Undefined example_state) example_state"

definition traced_timed :: state where
  "traced_timed = state_after (wrap Time (Ref 4) Undefined traced) traced"


text \<open>\<^verbatim>\<open>Q.trace(boom)\<close> and \<^verbatim>\<open>Q.trace(nothing)\<close>.\<close>

definition traced_boom :: state where
  "traced_boom = state_after (wrap Trace (Ref 2) Undefined example_state) example_state"

definition traced_nothing :: state where
  "traced_nothing = state_after (wrap Trace (Ref 3) Undefined example_state) example_state"

section \<open>Evaluating the model\<close>

subsection \<open>The elapsed time\<close>

lemma binary_scale_found: "2 ^ 52 * 1000000 \<le> d * 2 ^ s \<Longrightarrow> binary_scale d s fuel = s"
  by (cases fuel) simp_all

lemma binary_scale_next:
  "\<not> 2 ^ 52 * 1000000 \<le> d * 2 ^ s \<Longrightarrow> binary_scale d s (Suc fuel) = binary_scale d (Suc s) fuel"
  by simp

lemma binary_scale_add:
  "k \<le> fuel \<Longrightarrow> (\<forall>j < k. \<not> 2 ^ 52 * 1000000 \<le> d * 2 ^ (s + j)) \<Longrightarrow>
   binary_scale d s fuel = binary_scale d (s + k) (fuel - k)"
proof (induction k arbitrary: s fuel)
  case 0
  then show ?case by simp
next
  case (Suc k)
  then obtain f where f: "fuel = Suc f" by (cases fuel) auto
  from Suc.prems(2) have "\<not> 2 ^ 52 * 1000000 \<le> d * 2 ^ s" by (auto dest: spec [of _ 0])
  then have 1: "binary_scale d s fuel = binary_scale d (Suc s) f" by (simp add: f)
  have "\<forall>j < k. \<not> 2 ^ 52 * 1000000 \<le> d * 2 ^ (Suc s + j)"
    using Suc.prems(2) by (auto dest: spec [of _ "Suc _"])
  with Suc.IH [of f "Suc s"] Suc.prems(1) f 1 show ?case by simp
qed

lemma binary_scale_eq:
  assumes "2 ^ 52 * 1000000 \<le> d * 2 ^ s" "s \<le> 72"
    and "s = 0 \<or> d * 2 ^ (s - 1) < 2 ^ 52 * 1000000"
  shows "binary_scale d 0 72 = s"
proof -
  have "\<not> 2 ^ 52 * 1000000 \<le> d * 2 ^ (0 + j)" if "j < s" for j
  proof -
    from that have "j \<le> s - 1" and "s \<noteq> 0" by simp_all
    then have "(2::nat) ^ j \<le> 2 ^ (s - 1)"
      by (intro power_increasing) simp_all
    then have "d * 2 ^ j \<le> d * 2 ^ (s - 1)"
      by (rule mult_le_mono2)
    moreover from assms(3) \<open>s \<noteq> 0\<close> have "d * 2 ^ (s - 1) < 2 ^ 52 * 1000000" by simp
    ultimately have "d * 2 ^ j < 2 ^ 52 * 1000000" by (rule le_less_trans)
    then show ?thesis by (simp only: add_0 not_le)
  qed
  then have "binary_scale d 0 72 = binary_scale d (0 + s) (72 - s)"
    using assms(2) by (intro binary_scale_add) simp_all
  also have "\<dots> = s" using assms(1) by (simp add: binary_scale_found)
  finally show ?thesis .
qed

lemma seconds_double_example: "seconds_double 1500000 = (6755399441055744, 52)"
proof -
  have "binary_scale 1500000 0 72 = 52" by (rule binary_scale_eq) simp_all
  then show ?thesis by (simp add: seconds_double_def)
qed

lemma seconds_double_tie: "seconds_double 350000 = (6305039478318694, 54)"
proof -
  have "binary_scale 350000 0 72 = 54" by (rule binary_scale_eq) simp_all
  then show ?thesis by (simp add: seconds_double_def)
qed

declare show_nat.simps [simp del]

lemma show_nat_digit: "n < 10 \<Longrightarrow> show_nat n = [''0123456789'' ! n]"
  by (simp add: show_nat.simps)

lemma toFixed_ex: "toFixed1_mod_100 1500000 = ''1.5''" "toFixed1_mod_100 350000 = ''0.3''"
  by (simp_all add: toFixed1_mod_100_def seconds_double_example seconds_double_tie show_nat_digit)

lemma seconds_double_second_read: "seconds_double 1500100 = (6755849801018481, 52)"
proof -
  have "binary_scale 1500100 0 72 = 52" by (rule binary_scale_eq) simp_all
  then show ?thesis by (simp add: seconds_double_def)
qed

lemma toFixed_second_read: "toFixed1_mod_100 1500100 = ''1.5''"
  by (simp add: toFixed1_mod_100_def seconds_double_second_read show_nat_digit)

lemma write_log_at:
  assumes "all_ok (map (join_item h st) ts) = Ok items"
    and "toFixed1_mod_100 (get_monotonic_time h (clock_reads st) - startTime st) = t"
  shows "write_log h ts st =
           Ok (st\<lparr>stream := stream st @ fillWidth t CHR '' '' 4 @ ''s '' @ join '' '' items @ [CHR 0x0A],
                 clock_reads := Suc (clock_reads st)\<rparr>)"
  using assms by (simp add: write_log_def Let_def)

subsection \<open>The example states\<close>

lemmas wrap_eval = traceDecorator_def timeDecorator_def breakBeforeDecorator_def
  isDecoratedWithTag_def isDecoratedWithTag_loop.simps default_funcName_def new_function_def
  makeDecorator_def and_then_def readProp_def strict_eq_def store_def

lemmas eval_simps = wrap_eval getProp.simps setProp.simps example_state_def plain_function_def

lemma call_3: "call h 3 f this args st = call h (Suc (Suc (Suc 0))) f this args st"
  by (simp add: numeral_3_eq_3)

lemma traced_boom_eq:
  "traced_boom = example_state\<lparr>heap := heap example_state @
     [\<lparr>props = [''name'' \<mapsto> Str [], ''length'' \<mapsto> Num 0, ''isDecorator'' \<mapsto> Bool True,
                ''decoratedFunc'' \<mapsto> Ref 2, ''wraps'' \<mapsto> Ref 2, ''recursionDepth'' \<mapsto> Num 0,
                ''tag'' \<mapsto> Str ''trace''],
       call_body = Some (TraceShim (Ref 2) (Str ''boom''))\<rparr>]\<rparr>"
  by (simp add: traced_boom_def example_state_def plain_function_def wrap_eval)

lemma traced_nothing_eq:
  "traced_nothing = example_state\<lparr>heap := heap example_state @
     [\<lparr>props = [''name'' \<mapsto> Str [], ''length'' \<mapsto> Num 0, ''isDecorator'' \<mapsto> Bool True,
                ''decoratedFunc'' \<mapsto> Ref 3, ''wraps'' \<mapsto> Ref 3, ''recursionDepth'' \<mapsto> Num 0,
                ''tag'' \<mapsto> Str ''trace''],
       call_body = Some (TraceShim (Ref 3) (Str ''nothing''))\<rparr>]\<rparr>"
  by (simp add: traced_nothing_def example_state_def plain_function_def wrap_eval)

lemma wrap_trace_seven:
  "wrap Trace (Ref 1) Undefined example_state = Some (Ok (Ref 4), traced)"
  "traced = example_state\<lparr>heap := heap example_state @
     [shim (TraceShim (Ref 1) (Str ''seven'')) (Ref 1)
        [(''recursionDepth'', Num 0), (''tag'', Str ''trace'')]]\<rparr>"
  by (simp_all add: traced_def eval_simps shim_def)

lemma wrap_time_traced:
  "wrap Time (Ref 4) Undefined traced = Some (Ok (Ref 5), traced_timed)"
  "traced_timed = example_state\<lparr>heap := heap example_state @
     [(shim (TraceShim (Ref 1) (Str ''seven'')) (Ref 1)
        [(''recursionDepth'', Num 0), (''tag'', Str ''trace''), (''wrapper'', Ref 5)]),
      shim (TimeShim (Ref 4) (Str ''anonymous function'')) (Ref 4) [(''tag'', Str ''time'')]]\<rparr>"
  by (simp_all add: traced_timed_def wrap_trace_seven(2) eval_simps shim_def eval_nat_numeral)


lemma chain_traced_timed: "chain traced_timed (Ref 5) [5, 4]"
  apply (rule chain.chain_link [where d = "Bool True" and w = "Ref 4"])
  apply (simp_all add: wrap_time_traced(2) eval_simps shim_def)
  apply (rule chain.chain_link [where d = "Bool True" and w = "Ref 1"])
  apply (simp_all add: wrap_time_traced(2) eval_simps shim_def)
  apply (rule chain.chain_end [where d = Undefined])
  apply (simp_all add: wrap_time_traced(2) eval_simps shim_def)
  done




lemma call_traced_seven:
  "(case call example_host 3 (Ref 4) Undefined [] traced of
      None \<Rightarrow> False
    | Some (r, st') \<Rightarrow>
        r = Ok (Num 7) \<and>
        stream st' = '' 1.5s Entering seven()\<newline> 1.5s Leaving seven() -> 7\<newline>'')"
  by (simp add: wrap_trace_seven(2) eval_simps shim_def call_3 prettyPrint_def
      trace_enter_def trace_leave_def add_to_property_def write_log_def Let_def
      example_host_def toFixed_ex toFixed_second_read fillWidth_def int_text_def
      show_int_def show_nat_digit)

section \<open>The pretty-printer and the inspector\<close>

text \<open>
  Claim C3: for every input value, \<^verbatim>\<open>null\<close> and \<^verbatim>\<open>undefined\<close> included, \<^verbatim>\<open>prettyPrint\<close>
  returns a string and never raises. The code has no fallback: \<^verbatim>\<open>JSON.stringify\<close>
  returns \<^verbatim>\<open>undefined\<close> for \<^verbatim>\<open>undefined\<close>, whose \<^verbatim>\<open>length\<close> cannot be read, and
  \<^verbatim>\<open>obj.length\<close> cannot be read of \<^verbatim>\<open>null\<close>. In every state, on both values,
  \<^verbatim>\<open>_prettyPrint\<close> raises a \<^verbatim>\<open>TypeError\<close>.
\<close>

theorem prettyPrint_raises_on_undefined_and_null:
  "prettyPrint h st Undefined = Throw (TypeError ''retval is undefined'') \<and>
   prettyPrint h st Null = Throw (TypeError ''null has no properties'')"
  by (simp add: prettyPrint_def)

text \<open>
  Claim C5: \<^verbatim>\<open>q(value)\<close> returns \<^verbatim>\<open>value\<close> for every input value. With \<^verbatim>\<open>DEBUG\<close>
  enabled and a well-formed stack, \<^verbatim>\<open>q(null)\<close> raises the \<^verbatim>\<open>TypeError\<close> of
  \<^verbatim>\<open>_prettyPrint\<close> instead of returning \<^verbatim>\<open>null\<close>, and writes nothing.
\<close>

theorem q_raises_on_null:
  "q example_host ''_getCurrentStack@q.js:34\<newline>q@q.js:268\<newline>main@test.js:12\<newline>'' Null example_state =
     (Throw (TypeError ''null has no properties''), example_state)"
  by (simp add: q_def example_state_def getCurrentStack_def interpretStackFrame_def item_def
      prettyPrint_def Let_def)

text \<open>
  What does hold of \<^verbatim>\<open>q\<close>: with \<^verbatim>\<open>DEBUG\<close> disabled it returns its argument and leaves
  the state as it is, and whenever it returns, it returns its argument.
\<close>

lemma q_disabled: "\<not> truthy (DEBUG st) \<Longrightarrow> q h e_stack v st = (Ok v, st)"
  by (simp add: q_def)

lemma q_returns_its_argument: "q h e_stack v st = (Ok r, st') \<Longrightarrow> r = v"
  by (auto simp: q_def split: if_splits outcome.splits prod.splits)




section \<open>The attachers\<close>

text \<open>
  Claim C7: a call of \<^verbatim>\<open>trace\<close>, \<^verbatim>\<open>time\<close> or \<^verbatim>\<open>breakBefore\<close> with an argument list
  whose length is neither 1 nor 2 fails at once with a \<^verbatim>\<open>TypeError\<close> that names the
  operation; nothing is wrapped and the state is as before.
\<close>

theorem attacher_wrong_argument_count:
  assumes "length args \<noteq> 1" and "length args \<noteq> 2"
  shows "trace h args st =
           Some (Throw (TypeError ''trace() takes one or two arguments''), st) \<and>
         time h args st =
           Some (Throw (TypeError ''time() takes one or two arguments''), st) \<and>
         breakBefore h args st =
           Some (Throw (TypeError ''breakBefore() takes one or two arguments''), st)"
proof -
  from assms have "length args < 1 \<or> length args > 2" by arith
  then show ?thesis
    unfolding trace_def time_def breakBefore_def decorate_def by simp
qed

theorem attacher_wrong_argument_count_witness:
  "length [Ref 1, Str ''seven'', Num 3] \<noteq> 1 \<and> length [Ref 1, Str ''seven'', Num 3] \<noteq> 2 \<and>
   trace example_host [Ref 1, Str ''seven'', Num 3] example_state =
     Some (Throw (TypeError ''trace() takes one or two arguments''), example_state) \<and>
   time example_host [] example_state =
     Some (Throw (TypeError ''time() takes one or two arguments''), example_state)"
  using attacher_wrong_argument_count [of "[Ref 1, Str ''seven'', Num 3]" example_host example_state]
    attacher_wrong_argument_count [of "[]" example_host example_state]
  by simp

section \<open>The trace closure's counter\<close>

text \<open>
  Claim C2: the \<^verbatim>\<open>recursionDepth\<close> counter of a trace closure is back at its value
  from before the call on every way out of the call. The code decrements it on one way
  only, after \<^verbatim>\<open>write('Leaving', ...)\<close>. When the wrapped function throws, and also
  when it returns \<^verbatim>\<open>undefined\<close> (which \<^verbatim>\<open>_prettyPrint\<close> cannot render), the counter
  stays one higher: it was 0 before the call and is 1 after it.
\<close>

theorem trace_closure_leaves_depth_incremented:
  "getProp traced_boom (Ref 4) ''recursionDepth'' = Ok (Num 0) \<and>
   (case call example_host 3 (Ref 4) Undefined [] traced_boom of
      None \<Rightarrow> False
    | Some (r, st') \<Rightarrow>
        r = Throw (Thrown (Str ''boom'')) \<and>
        getProp st' (Ref 4) ''recursionDepth'' = Ok (Num 1)) \<and>
   getProp traced_nothing (Ref 4) ''recursionDepth'' = Ok (Num 0) \<and>
   (case call example_host 3 (Ref 4) Undefined [] traced_nothing of
      None \<Rightarrow> False
    | Some (r, st') \<Rightarrow>
        r = Throw (TypeError ''retval is undefined'') \<and>
        getProp st' (Ref 4) ''recursionDepth'' = Ok (Num 1))"
  by (simp add: traced_boom_eq traced_nothing_eq example_state_def plain_function_def call_3
      trace_enter_def trace_leave_def add_to_property_def
      write_log_def Let_def prettyPrint_def store_def)

section \<open>Chains\<close>

declare getProp.simps [simp del] setProp.simps [simp del]


lemma chain_unique: "chain st v as \<Longrightarrow> chain st v bs \<Longrightarrow> as = bs"
proof (induction arbitrary: bs rule: chain.induct)
  case (chain_end v d)
  from chain_end.prems show ?case
  proof (cases rule: chain.cases)
    case (chain_end d')
    then show ?thesis by simp
  next
    case (chain_link a d' w as)
    with chain_end.hyps show ?thesis by simp
  qed
next
  case (chain_link a d w as)
  from chain_link.prems show ?case
  proof (cases rule: chain.cases)
    case (chain_end d')
    with chain_link.hyps show ?thesis by simp
  next
    case (chain_link d' w' as')
    with chain_link.hyps have "w' = w" by simp
    with chain_link.IH [of as'] \<open>chain st w' as'\<close> \<open>bs = a # as'\<close> show ?thesis by simp
  qed
qed

lemma chain_suffix:
  "chain st v as \<Longrightarrow> a \<in> set as \<Longrightarrow> \<exists>bs. chain st (Ref a) (a # bs) \<and> length bs < length as"
proof (induction rule: chain.induct)
  case (chain_end v d)
  then show ?case by simp
next
  case (chain_link b d w as)
  show ?case
  proof (cases "a = b")
    case True
    with chain_link.hyps have "chain st (Ref a) (a # as)"
      by (auto intro: chain.chain_link)
    then show ?thesis by auto
  next
    case False
    with chain_link.prems have "a \<in> set as" by simp
    with chain_link.IH obtain bs where "chain st (Ref a) (a # bs)" "length bs < length as"
      by blast
    then show ?thesis by auto
  qed
qed

lemma chain_distinct: "chain st v as \<Longrightarrow> distinct as"
proof (induction rule: chain.induct)
  case (chain_end v d)
  then show ?case by simp
next
  case (chain_link a d w as)
  have "a \<notin> set as"
  proof
    assume "a \<in> set as"
    with chain_link.hyps obtain bs where bs: "chain st (Ref a) (a # bs)" "length bs < length as"
      using chain_suffix by blast
    have "chain st (Ref a) (a # as)"
      using chain_link.hyps by (auto intro: chain.chain_link)
    with bs(1) have "a # bs = a # as" by (rule chain_unique)
    with bs(2) show False by simp
  qed
  with chain_link.IH show ?case by simp
qed

lemma getProp_tag_at: "a < length (heap st) \<Longrightarrow> getProp st (Ref a) ''tag'' = Ok (tag_at st a)"
  by (simp add: tag_at_def getProp.simps)

lemma loop_on_chain:
  "chain st f as \<Longrightarrow>
   isDecoratedWithTag_loop st f tag visited =
     Some (Ok (records_tagged st tag as \<noteq> [], visited @ map Ref (examined st tag as)))"
proof (induction arbitrary: visited rule: chain.induct)
  case (chain_end v d)
  then show ?case
    by (subst isDecoratedWithTag_loop.simps) (simp add: records_tagged_def)
next
  case (chain_link a d w as)
  show ?case
  proof (cases "strict_eq (tag_at st a) tag")
    case True
    with chain_link.hyps show ?thesis
      by (subst isDecoratedWithTag_loop.simps) (simp add: records_tagged_def getProp_tag_at)
  next
    case False
    with chain_link.hyps chain_link.IH [of "visited @ [Ref a]"] show ?thesis
      by (subst isDecoratedWithTag_loop.simps) (simp add: records_tagged_def getProp_tag_at)
  qed
qed

lemma isDecoratedWithTag_on_chain:
  "chain st f as \<Longrightarrow> isDecoratedWithTag st f tag = Some (Ok (records_tagged st tag as \<noteq> []))"
  by (simp add: isDecoratedWithTag_def loop_on_chain)

lemma examined_subset: "set (examined st t as) \<subseteq> set as"
  by (induction as) auto

lemma examined_distinct: "distinct as \<Longrightarrow> distinct (examined st t as)"
proof (induction as)
  case Nil
  then show ?case by simp
next
  case (Cons a as)
  with examined_subset [of st t as] show ?case by auto
qed

lemma examined_length: "length (examined st t as) \<le> length as"
  by (induction as) auto

text \<open>
  Claim C10: on a chain that ends in a value that is not a decorator record,
  \<^verbatim>\<open>_isDecoratedWithTag\<close> returns a boolean; it examines no record twice, only records
  of the chain, and says whether a record of the chain carries the tag.
\<close>

theorem isDecoratedWithTag_terminates_on_chain:
  assumes "chain st func as"
  shows "\<exists>b visited.
           isDecoratedWithTag_loop st func tag [] = Some (Ok (b, visited)) \<and>
           isDecoratedWithTag st func tag = Some (Ok b) \<and>
           b = (records_tagged st tag as \<noteq> []) \<and>
           distinct visited \<and> set visited \<subseteq> Ref ` set as \<and> length visited \<le> length as"
proof -
  have "distinct as" using assms by (rule chain_distinct)
  then have "distinct (map Ref (examined st tag as))"
    by (simp add: distinct_map examined_distinct inj_on_def)
  moreover have "set (map Ref (examined st tag as)) \<subseteq> Ref ` set as"
    using examined_subset [of st tag as] by auto
  ultimately show ?thesis
    using assms examined_length [of st tag as]
    by (simp add: loop_on_chain isDecoratedWithTag_on_chain)
qed

theorem isDecoratedWithTag_terminates_on_chain_witness:
  "chain traced_timed (Ref 5) [5, 4] \<and>
   isDecoratedWithTag traced_timed (Ref 5) (Str ''trace'') = Some (Ok True) \<and>
   isDecoratedWithTag traced_timed (Ref 5) (Str ''breakBefore'') = Some (Ok False)"
  using isDecoratedWithTag_terminates_on_chain [OF chain_traced_timed, of "Str ''trace''"]
    isDecoratedWithTag_terminates_on_chain [OF chain_traced_timed, of "Str ''breakBefore''"]
    chain_traced_timed
  by (auto simp add: records_tagged_def tag_at_def strict_eq_def wrap_time_traced(2) example_state_def shim_def)

section \<open>What a decorator does to the heap\<close>


lemma length_store [simp]: "length (heap (store a k x st)) = length (heap st)"
  by (simp add: store_def)



lemma length_fold_store [simp]:
  "length (heap (fold (\<lambda>(k, v). store a k v) other st)) = length (heap st)"
  by (induction other arbitrary: st) (auto simp: split_def)




lemma is_decorator_getProp:
  "valid st f \<Longrightarrow> f \<noteq> Undefined \<Longrightarrow> f \<noteq> Null \<Longrightarrow>
   \<exists>d. getProp st f ''isDecorator'' = Ok d \<and> (truthy d \<longleftrightarrow> (\<exists>a. f = Ref a \<and> is_decorator st a))"
  by (cases f) (auto simp: is_decorator_def getProp.simps)









section \<open>What a call does to the heap\<close>


lemma sbd_refl [simp]: "same_but_depth st st"
  by (simp add: same_but_depth_def)


lemma sbd_clock [simp]:
  "same_but_depth st (st'\<lparr>clock_reads := c\<rparr>) = same_but_depth st st'"
  "same_but_depth (st\<lparr>clock_reads := c\<rparr>) st' = same_but_depth st st'"
  by (simp_all add: same_but_depth_def)


lemma props_store_other:
  "k \<noteq> k' \<Longrightarrow> b < length (heap st) \<Longrightarrow> props (heap (store a k' x st) ! b) k = props (heap st ! b) k"
  by (cases "b = a") (simp_all add: store_def)

lemma sbd_store [simp]:
  "same_but_depth st (store a ''recursionDepth'' x st') = same_but_depth st st'"
  by (simp add: same_but_depth_def props_store_other cong: conj_cong)








section \<open>At most one record of each tag\<close>

lemma extends_refl [simp]: "extends st st"
  by (simp add: extends_def)

lemma extends_DEBUG [simp]: "extends st (st\<lparr>DEBUG := v\<rparr>)"
  by (simp add: extends_def)
















lemma wrap_when_disabled:
  assumes "\<not> truthy (DEBUG st)"
  shows "wrap k f name st = Some (Ok f, st)"
  using assms
  by (cases k) (simp_all add: traceDecorator_def timeDecorator_def breakBeforeDecorator_def)



section \<open>The \<^verbatim>\<open>DEBUG\<close> flag\<close>

lemma set_DEBUG_fields [simp]:
  "heap (set_DEBUG d st) = heap st"
  "clock_reads (set_DEBUG d st) = clock_reads st"
  "startTime (set_DEBUG d st) = startTime st"
  "stream (set_DEBUG d st) = stream st"
  "(set_DEBUG d st)\<lparr>clock_reads := c\<rparr> = set_DEBUG d (st\<lparr>clock_reads := c\<rparr>)"
  "(set_DEBUG d st)\<lparr>stream := s\<rparr> = set_DEBUG d (st\<lparr>stream := s\<rparr>)"
  "(set_DEBUG d st)\<lparr>heap := hp\<rparr> = set_DEBUG d (st\<lparr>heap := hp\<rparr>)"
  by (simp_all add: set_DEBUG_def)

lemma getProp_DEBUG [simp]: "getProp (set_DEBUG d st) v k = getProp st v k"
  by (cases v) (simp_all add: getProp.simps)

lemma callable_DEBUG [simp]: "callable (set_DEBUG d st) v = callable st v"
  by (cases v) simp_all

lemma to_string_DEBUG [simp]: "to_string h (set_DEBUG d st) v = to_string h st v"
  by (cases v) simp_all

lemma to_number_DEBUG [simp]: "to_number h (set_DEBUG d st) v = to_number h st v"
  by (cases v) simp_all

lemma join_item_DEBUG [simp]: "join_item h (set_DEBUG d st) = join_item h st"
proof
  fix v show "join_item h (set_DEBUG d st) v = join_item h st v"
    by (cases v) simp_all
qed

lemma JSON_stringify_DEBUG [simp]: "JSON_stringify h (set_DEBUG d st) v = JSON_stringify h st v"
  by (cases v) (simp_all del: callable.simps)

lemma prettyPrint_DEBUG [simp]: "prettyPrint h (set_DEBUG d st) v = prettyPrint h st v"
  by (simp add: prettyPrint_def Let_def split: outcome.splits option.splits)

lemma prettyPrint_all_DEBUG [simp]: "prettyPrint_all h (set_DEBUG d st) vs = prettyPrint_all h st vs"
  by (induction vs) (simp_all split: outcome.splits)

lemma write_log_DEBUG [simp]:
  "write_log h ts (set_DEBUG d st) = map_outcome (set_DEBUG d) (write_log h ts st)"
  by (simp add: write_log_def Let_def split: outcome.splits)

lemma store_DEBUG [simp]: "store a k x (set_DEBUG d st) = set_DEBUG d (store a k x st)"
  by (simp add: store_def)

lemma setProp_DEBUG [simp]:
  "setProp v k x (set_DEBUG d st) = apsnd (set_DEBUG d) (setProp v k x st)"
  by (cases v) (simp_all add: setProp.simps)

lemma add_to_property_DEBUG [simp]:
  "add_to_property h v k n (set_DEBUG d st) = apsnd (set_DEBUG d) (add_to_property h v k n st)"
  by (cases "setProp v k (add_number h (case to_number h st (case getProp st v k of Ok x \<Rightarrow> x) of Ok y \<Rightarrow> y) n) st")
     (auto simp: add_to_property_def split: outcome.splits prod.splits)

lemma trace_enter_DEBUG [simp]:
  "trace_enter h callee nm args (set_DEBUG d st) = apsnd (set_DEBUG d) (trace_enter h callee nm args st)"
proof (cases "add_to_property h (Ref callee) ''recursionDepth'' 1 st")
  case (Pair r1 s1)
  then show ?thesis
    by (simp add: trace_enter_def Let_def split: outcome.splits)
qed

lemma trace_leave_DEBUG [simp]:
  "trace_leave h callee ts rv (set_DEBUG d st) = apsnd (set_DEBUG d) (trace_leave h callee ts rv st)"
  by (simp add: trace_leave_def split: outcome.splits prod.splits)

lemma time_leave_DEBUG [simp]:
  "time_leave h nm timer rv (set_DEBUG d st) = apsnd (set_DEBUG d) (time_leave h nm timer rv st)"
  by (simp add: time_leave_def Let_def split: outcome.splits)

lemma break_enter_DEBUG [simp]:
  "break_enter h callee (set_DEBUG d st) = apsnd (set_DEBUG d) (break_enter h callee st)"
  by (simp add: break_enter_def split: outcome.splits)

lemma with_DEBUG_simps [simp]:
  "with_DEBUG d None = None"
  "with_DEBUG d (Some (r, st)) = Some (r, set_DEBUG d st)"
  by (simp_all add: with_DEBUG_def)

lemma call_run_DEBUG:
  "(\<forall>f this args st. call h n f this args (set_DEBUG d st) = with_DEBUG d (call h n f this args st)) \<and>
   (\<forall>p st. run h n p (set_DEBUG d st) = with_DEBUG d (run h n p st))"
proof (induction n)
  case 0
  show ?case by simp
next
  case (Suc n)
  then have IHc: "\<And>f this args st. call h n f this args (set_DEBUG d st) = with_DEBUG d (call h n f this args st)"
    and IHr: "\<And>p st. run h n p (set_DEBUG d st) = with_DEBUG d (run h n p st)"
    by simp_all
  have c: "call h (Suc n) f this args (set_DEBUG d st) = with_DEBUG d (call h (Suc n) f this args st)"
    for f this args st
  proof (cases "callable st f")
    case None
    then show ?thesis by simp
  next
    case (Some ac)
    obtain callee c where ac: "ac = (callee, c)" by (cases ac)
    show ?thesis
    proof (cases c)
      case (TraceShim func nm)
      obtain r1 s1 where 1: "trace_enter h callee nm args st = (r1, s1)"
        by (cases "trace_enter h callee nm args st")
      show ?thesis
      proof (cases "call h n func this args s1")
        case None
        with Some ac TraceShim 1 show ?thesis
          by (simp add: IHc split: outcome.splits)
      next
        case (Some rs)
        obtain r2 s2 where "rs = (r2, s2)" by (cases rs)
        with Some \<open>callable st f = Some ac\<close> ac TraceShim 1 show ?thesis
          by (cases "trace_leave h callee (case r1 of Ok t \<Rightarrow> t) (case r2 of Ok v \<Rightarrow> v) s2")
             (simp add: IHc split: outcome.splits)
      qed
    next
      case (TimeShim func nm)
      show ?thesis
      proof (cases "call h n func this args (st\<lparr>clock_reads := Suc (clock_reads st)\<rparr>)")
        case None
        with Some ac TimeShim show ?thesis
          by (simp add: IHc Let_def)
      next
        case (Some rs)
        obtain r2 s2 where "rs = (r2, s2)" by (cases rs)
        with Some \<open>callable st f = Some ac\<close> ac TimeShim show ?thesis
          by (cases "time_leave h nm (get_monotonic_time h (clock_reads st)) (case r2 of Ok v \<Rightarrow> v) s2")
             (simp add: IHc Let_def split: outcome.splits)
      qed
    next
      case (BreakBeforeShim func)
      obtain r1 s1 where 1: "break_enter h callee st = (r1, s1)"
        by (cases "break_enter h callee st")
      with Some ac BreakBeforeShim show ?thesis
        by (simp add: IHc split: outcome.splits)
    next
      case (UserCode body)
      with Some ac show ?thesis
        by (simp add: IHr)
    qed
  qed
  have r: "run h (Suc n) p (set_DEBUG d st) = with_DEBUG d (run h (Suc n) p st)" for p st
    by (cases p) (auto simp: IHc IHr split: outcome.splits option.splits prod.splits)
  from c r show ?case by blast
qed

text \<open>
  Claim C4: with \<^verbatim>\<open>DEBUG\<close> false when a decorator runs, the decorator returns the
  function it was given and changes nothing, so no closure is installed. An assignment
  to \<^verbatim>\<open>DEBUG\<close> leaves the heap, and with it every installed closure, as it is; and a call
  in the state after the assignment does what it does in the state before it, return
  value, log and heap, with the new value of \<^verbatim>\<open>DEBUG\<close> in the state it leaves.
\<close>

theorem DEBUG_read_at_wrap_time_only:
  "(\<not> truthy (DEBUG st) \<longrightarrow> wrap k f name st = Some (Ok f, st)) \<and>
   heap (st\<lparr>DEBUG := d\<rparr>) = heap st \<and>
   call h n g this args (st\<lparr>DEBUG := d\<rparr>) =
     (case call h n g this args st of
        None \<Rightarrow> None
      | Some (r, st') \<Rightarrow> Some (r, st'\<lparr>DEBUG := d\<rparr>))"
  using call_run_DEBUG [of h n d]
  by (simp add: wrap_when_disabled set_DEBUG_def with_DEBUG_def split: option.splits)

theorem DEBUG_read_at_wrap_time_only_witness:
  "\<not> truthy (DEBUG (example_state\<lparr>DEBUG := Bool False\<rparr>)) \<and>
   wrap Trace (Ref 1) Undefined (example_state\<lparr>DEBUG := Bool False\<rparr>) =
     Some (Ok (Ref 1), example_state\<lparr>DEBUG := Bool False\<rparr>) \<and>
   (case call example_host 3 (Ref 4) Undefined [] (traced\<lparr>DEBUG := Bool False\<rparr>) of
      None \<Rightarrow> False
    | Some (r, st') \<Rightarrow>
        r = Ok (Num 7) \<and> DEBUG st' = Bool False \<and>
        stream st' = '' 1.5s Entering seven()\<newline> 1.5s Leaving seven() -> 7\<newline>'')"
proof -
  have 1: "\<not> truthy (DEBUG (example_state\<lparr>DEBUG := Bool False\<rparr>))" by simp
  from 1 DEBUG_read_at_wrap_time_only
      [of "example_state\<lparr>DEBUG := Bool False\<rparr>" Trace "Ref 1" Undefined "Bool False" example_host 3 "Ref 4" Undefined "[]"]
  have 2: "wrap Trace (Ref 1) Undefined (example_state\<lparr>DEBUG := Bool False\<rparr>) =
     Some (Ok (Ref 1), example_state\<lparr>DEBUG := Bool False\<rparr>)"
    by blast
  from DEBUG_read_at_wrap_time_only
      [of traced Trace "Ref 1" Undefined "Bool False" example_host 3 "Ref 4" Undefined "[]"]
  have 3: "call example_host 3 (Ref 4) Undefined [] (traced\<lparr>DEBUG := Bool False\<rparr>) =
     (case call example_host 3 (Ref 4) Undefined [] traced of
        None \<Rightarrow> None
      | Some (r, st') \<Rightarrow> Some (r, st'\<lparr>DEBUG := Bool False\<rparr>))"
    by blast
  from call_traced_seven have 4: "(case call example_host 3 (Ref 4) Undefined [] (traced\<lparr>DEBUG := Bool False\<rparr>) of
      None \<Rightarrow> False
    | Some (r, st') \<Rightarrow>
        r = Ok (Num 7) \<and> DEBUG st' = Bool False \<and>
        stream st' = '' 1.5s Entering seven()\<newline> 1.5s Leaving seven() -> 7\<newline>'')"
    unfolding 3 by (cases "call example_host 3 (Ref 4) Undefined [] traced") auto
  from 1 2 4 show ?thesis by blast
qed

section \<open>The back-reference \<^verbatim>\<open>wrapper\<close>\<close>











section \<open>The log line\<close>






end
